theory Spec2Isabelle
  imports Main
begin

section \<open>JavaScript values\<close>

text \<open>
  The candidate records, the validated data and the database payloads are JavaScript
  values. Strings are lists of characters (their length is the list length), numbers are
  integers (the budgets of a lead are integers; NaN and fractions are not represented).
  An object is a total function from its keys to values: reading a key that is not there
  gives \<open>JUndefined\<close>, as property access does.
\<close>

datatype jsval = JUndefined | JNull | JBool bool | JNum int | JStr string | JArr "jsval list"

type_synonym jsobj = "string \<Rightarrow> jsval"

text \<open>Truthiness, as \<open>!x\<close>, \<open>x && y\<close> and \<open>x || y\<close> read it.\<close>

fun truthy :: "jsval \<Rightarrow> bool" where
  "truthy JUndefined = False"
| "truthy JNull = False"
| "truthy (JBool b) = b"
| "truthy (JNum n) = (n \<noteq> 0)"
| "truthy (JStr s) = (s \<noteq> [])"
| "truthy (JArr xs) = True"

definition js_or :: "jsval \<Rightarrow> jsval \<Rightarrow> jsval" where
  "js_or a b = (if truthy a then a else b)"

text \<open>
  Two parts of the platform are parameters of the model: the pattern behind
  \<open>z.string().email()\<close> (it belongs to the validation library, whose version the sources
  do not pin), and the relational comparison \<open>a < b\<close> when an operand is not a number
  (it goes through string-to-number conversion).
\<close>

record jsenv =
  email_ok :: "string \<Rightarrow> bool"
  lt_other :: "jsval \<Rightarrow> jsval \<Rightarrow> bool"

definition js_lt :: "jsenv \<Rightarrow> jsval \<Rightarrow> jsval \<Rightarrow> bool" where
  "js_lt E a b = (case (a, b) of (JNum x, JNum y) \<Rightarrow> x < y | _ \<Rightarrow> lt_other E a b)"

section \<open>The validation library\<close>

text \<open>
  The schemas of \<open>validations.ts\<close> are built from the combinators of zod 3. A parse
  returns a status and adds issues to a shared list: \<open>OK\<close> (valid), \<open>DIRTY\<close> (a value
  with issues: a failed length, range or pattern check) or \<open>INVALID\<close> (aborted, no
  value: a wrong type, a value outside an enum or a literal).
\<close>

datatype path_elem = Key string | Idx nat

datatype issue_code = invalid_type | invalid_literal | invalid_enum_value | invalid_union
  | invalid_string | too_small | too_big | custom

text \<open>The message is \<open>None\<close> where the schema gives none and the library's default is used.\<close>

record issue =
  code :: issue_code
  path :: "path_elem list"
  message :: "string option"

datatype 'a pres = OK 'a | DIRTY 'a | INVALID

type_synonym 'a parse = "'a pres \<times> issue list"

type_synonym schema = "path_elem list \<Rightarrow> jsval \<Rightarrow> jsval parse"

definition mk_issue :: "issue_code \<Rightarrow> path_elem list \<Rightarrow> string option \<Rightarrow> issue" where
  "mk_issue c p m = \<lparr>code = c, path = p, message = m\<rparr>"

fun is_aborted :: "'a pres \<Rightarrow> bool" where
  "is_aborted INVALID = True"
| "is_aborted _ = False"

fun is_dirty :: "'a pres \<Rightarrow> bool" where
  "is_dirty (DIRTY _) = True"
| "is_dirty _ = False"

fun is_valid :: "'a pres \<Rightarrow> bool" where
  "is_valid (OK _) = True"
| "is_valid _ = False"

fun pvalue :: "jsval pres \<Rightarrow> jsval" where
  "pvalue (OK v) = v"
| "pvalue (DIRTY v) = v"
| "pvalue INVALID = JUndefined"

text \<open>A check of a string or number schema: the issue it raises, if any.\<close>

type_synonym 'a check = "'a \<Rightarrow> (issue_code \<times> string option) option"

definition run_checks :: "'a check list \<Rightarrow> path_elem list \<Rightarrow> 'a \<Rightarrow> issue list" where
  "run_checks cs p x =
     concat (map (\<lambda>c. case c x of None \<Rightarrow> [] | Some (k, m) \<Rightarrow> [mk_issue k p m]) cs)"

definition smin :: "nat \<Rightarrow> string option \<Rightarrow> string check" where
  "smin n m s = (if length s < n then Some (too_small, m) else None)"

definition smax :: "nat \<Rightarrow> string option \<Rightarrow> string check" where
  "smax n m s = (if length s > n then Some (too_big, m) else None)"

definition sregex :: "(string \<Rightarrow> bool) \<Rightarrow> string option \<Rightarrow> string check" where
  "sregex re m s = (if re s then None else Some (invalid_string, m))"

definition semail :: "jsenv \<Rightarrow> string option \<Rightarrow> string check" where
  "semail E m s = (if email_ok E s then None else Some (invalid_string, m))"

definition nmin :: "int \<Rightarrow> string option \<Rightarrow> int check" where
  "nmin n m x = (if x < n then Some (too_small, m) else None)"

text \<open>\<open>z.string()\<close> with its checks: a non-string aborts, every failed check dirties.\<close>

definition zString :: "string check list \<Rightarrow> schema" where
  "zString cs p v =
     (case v of
        JStr s \<Rightarrow> (let is = run_checks cs p s in (if is = [] then OK v else DIRTY v, is))
      | _ \<Rightarrow> (INVALID, [mk_issue invalid_type p None]))"

definition zNumber :: "int check list \<Rightarrow> schema" where
  "zNumber cs p v =
     (case v of
        JNum n \<Rightarrow> (let is = run_checks cs p n in (if is = [] then OK v else DIRTY v, is))
      | _ \<Rightarrow> (INVALID, [mk_issue invalid_type p None]))"

definition zEnum :: "string list \<Rightarrow> schema" where
  "zEnum vals p v =
     (case v of
        JStr s \<Rightarrow> (if s \<in> set vals then (OK v, [])
                   else (INVALID, [mk_issue invalid_enum_value p None]))
      | _ \<Rightarrow> (INVALID, [mk_issue invalid_type p None]))"

definition zLiteral :: "jsval \<Rightarrow> schema" where
  "zLiteral lit p v = (if v = lit then (OK v, []) else (INVALID, [mk_issue invalid_literal p None]))"

definition zOptional :: "schema \<Rightarrow> schema" where
  "zOptional sch p v = (if v = JUndefined then (OK JUndefined, []) else sch p v)"

definition zDefault :: "schema \<Rightarrow> jsval \<Rightarrow> schema" where
  "zDefault sch d p v = sch p (if v = JUndefined then d else v)"

text \<open>
  \<open>a.or(b)\<close>: the first valid option wins and its result is returned; otherwise the
  first dirty option is returned with its issues; otherwise one \<open>invalid_union\<close> issue.
\<close>

definition zOr :: "schema \<Rightarrow> schema \<Rightarrow> schema" where
  "zOr a b p v =
     (let ra = a p v in
      if is_valid (fst ra) then (fst ra, [])
      else let rb = b p v in
        if is_valid (fst rb) then (fst rb, [])
        else if is_dirty (fst ra) then ra
        else if is_dirty (fst rb) then rb
        else (INVALID, [mk_issue invalid_union p None]))"

text \<open>\<open>s.transform(f)\<close>: the function runs on a valid value only.\<close>

definition zTransform :: "schema \<Rightarrow> (jsval \<Rightarrow> jsval) \<Rightarrow> schema" where
  "zTransform sch f p v =
     (case sch p v of (OK x, is) \<Rightarrow> (OK (f x), is) | r \<Rightarrow> r)"

text \<open>\<open>z.array(s)\<close>: every element is parsed under its index; one aborted element aborts.\<close>

definition zArray :: "schema \<Rightarrow> schema" where
  "zArray sch p v =
     (case v of
        JArr xs \<Rightarrow>
          (let rs = map (\<lambda>(i, x). sch (p @ [Idx i]) x) (zip [0..<length xs] xs);
               is = concat (map snd rs)
           in if list_ex (\<lambda>r. is_aborted (fst r)) rs then (INVALID, is)
              else if list_ex (\<lambda>r. is_dirty (fst r)) rs
                then (DIRTY (JArr (map (\<lambda>r. pvalue (fst r)) rs)), is)
              else (OK (JArr (map (\<lambda>r. pvalue (fst r)) rs)), is))
      | _ \<Rightarrow> (INVALID, [mk_issue invalid_type p None]))"

text \<open>
  \<open>z.object(shape)\<close>: every key of the shape is parsed, in the order of the shape, and
  all issues are kept. The result aborts when a field aborted, is dirty when a field is
  dirty, and holds the parsed values under the keys of the shape (other keys are dropped).
\<close>

definition field_results :: "(string \<times> schema) list \<Rightarrow> jsobj \<Rightarrow> (string \<times> jsval parse) list" where
  "field_results shape obj = map (\<lambda>(k, sch). (k, sch [Key k] (obj k))) shape"

definition field_issues :: "(string \<times> schema) list \<Rightarrow> jsobj \<Rightarrow> issue list" where
  "field_issues shape obj = concat (map (\<lambda>(k, r). snd r) (field_results shape obj))"

definition aborts :: "(string \<times> schema) list \<Rightarrow> jsobj \<Rightarrow> bool" where
  "aborts shape obj = list_ex (\<lambda>(k, r). is_aborted (fst r)) (field_results shape obj)"

definition dirties :: "(string \<times> schema) list \<Rightarrow> jsobj \<Rightarrow> bool" where
  "dirties shape obj = list_ex (\<lambda>(k, r). is_dirty (fst r)) (field_results shape obj)"

definition parsed_values :: "(string \<times> schema) list \<Rightarrow> jsobj \<Rightarrow> jsobj" where
  "parsed_values shape obj =
     (\<lambda>k. case map_of (field_results shape obj) k of
             None \<Rightarrow> JUndefined
           | Some r \<Rightarrow> pvalue (fst r))"

definition zObject :: "(string \<times> schema) list \<Rightarrow> jsobj \<Rightarrow> jsobj parse" where
  "zObject shape obj =
     (if aborts shape obj then (INVALID, field_issues shape obj)
      else if dirties shape obj then (DIRTY (parsed_values shape obj), field_issues shape obj)
      else (OK (parsed_values shape obj), field_issues shape obj))"

text \<open>
  \<open>s.refine(check, {message, path})\<close>: the check does not run when the inner parse
  aborted; a failed check adds one \<open>custom\<close> issue under the given path and dirties.
\<close>

definition zRefine ::
  "(jsobj \<Rightarrow> jsobj parse) \<Rightarrow> (jsobj \<Rightarrow> bool) \<Rightarrow> string option \<Rightarrow> path_elem list
     \<Rightarrow> jsobj \<Rightarrow> jsobj parse"
where
  "zRefine sch chk m pth obj =
     (case sch obj of
        (INVALID, is) \<Rightarrow> (INVALID, is)
      | (OK d, is) \<Rightarrow> (if chk d then (OK d, is) else (DIRTY d, is @ [mk_issue custom pth m]))
      | (DIRTY d, is) \<Rightarrow>
          (if chk d then (DIRTY d, is) else (DIRTY d, is @ [mk_issue custom pth m])))"

text \<open>\<open>s.parse(x)\<close> returns the value of a valid parse and throws the issues otherwise.\<close>

definition zparse :: "('a \<Rightarrow> 'b parse) \<Rightarrow> 'a \<Rightarrow> issue list + 'b" where
  "zparse sch x = (case sch x of (OK d, is) \<Rightarrow> Inr d | (r, is) \<Rightarrow> Inl is)"

section \<open>The schemas of the application\<close>

definition cities :: "string list" where
  "cities = [''Chandigarh'', ''Mohali'', ''Zirakpur'', ''Panchkula'', ''Other'']"

definition propertyTypes :: "string list" where
  "propertyTypes = [''Apartment'', ''Villa'', ''Plot'', ''Office'', ''Retail'']"

definition bhks :: "string list" where
  "bhks = [''1'', ''2'', ''3'', ''4'', ''Studio'']"

definition purposes :: "string list" where
  "purposes = [''Buy'', ''Rent'']"

definition timelines :: "string list" where
  "timelines = [''0-3m'', ''3-6m'', ''>6m'', ''Exploring'']"

definition sources :: "string list" where
  "sources = [''Website'', ''Referral'', ''Walk-in'', ''Call'', ''Other'']"

definition statuses :: "string list" where
  "statuses = [''New'', ''Qualified'', ''Contacted'', ''Visited'', ''Negotiation'',
     ''Converted'', ''Dropped'']"

text \<open>A decimal digit, \<open>\d\<close> in the patterns: the characters with codes 48 to 57.\<close>

definition is_digit :: "char \<Rightarrow> bool" where
  "is_digit c = (48 \<le> (of_char c :: nat) \<and> (of_char c :: nat) \<le> 57)"

text \<open>The pattern \<open>/^\d{10,15}$/\<close>.\<close>

definition phone_re :: "string \<Rightarrow> bool" where
  "phone_re s = (10 \<le> length s \<and> length s \<le> 15 \<and> list_all is_digit s)"

text \<open>The pattern \<open>/^\d*$/\<close>.\<close>

definition digits_re :: "string \<Rightarrow> bool" where
  "digits_re s = list_all is_digit s"

text \<open>The two cross-field checks, shared by both schemas.\<close>

definition bhk_check :: "jsobj \<Rightarrow> bool" where
  "bhk_check d =
     (if (d ''propertyType'' = JStr ''Apartment'' \<or> d ''propertyType'' = JStr ''Villa'')
         \<and> \<not> truthy (d ''bhk'')
      then False else True)"

definition budget_check :: "jsenv \<Rightarrow> jsobj \<Rightarrow> bool" where
  "budget_check E d =
     (if truthy (d ''budgetMin'') \<and> truthy (d ''budgetMax'')
         \<and> js_lt E (d ''budgetMax'') (d ''budgetMin'')
      then False else True)"

definition buyerShape :: "jsenv \<Rightarrow> (string \<times> schema) list" where
  "buyerShape E =
     [(''fullName'', zString [smin 2 (Some ''Name must be at least 2 characters''),
                              smax 80 (Some ''Name must be at most 80 characters'')]),
      (''email'', zOr (zOptional (zString [semail E (Some ''Invalid email format'')]))
                      (zLiteral (JStr []))),
      (''phone'', zString [sregex phone_re (Some ''Phone must be 10-15 digits'')]),
      (''city'', zEnum cities),
      (''propertyType'', zEnum propertyTypes),
      (''bhk'', zOptional (zEnum bhks)),
      (''purpose'', zEnum purposes),
      (''budgetMin'', zOptional (zNumber [nmin 0 (Some ''Budget must be positive'')])),
      (''budgetMax'', zOptional (zNumber [nmin 0 (Some ''Budget must be positive'')])),
      (''timeline'', zEnum timelines),
      (''source'', zEnum sources),
      (''status'', zDefault (zEnum statuses) (JStr ''New'')),
      (''notes'', zOr (zOptional (zString
                     [smax 1000 (Some ''Notes must be at most 1000 characters'')]))
                      (zLiteral (JStr []))),
      (''tags'', zDefault (zOptional (zArray (zString []))) (JArr []))]"

definition buyerSchema :: "jsenv \<Rightarrow> jsobj \<Rightarrow> jsobj parse" where
  "buyerSchema E =
     zRefine
       (zRefine (zObject (buyerShape E)) bhk_check
          (Some ''BHK is required for Apartments and Villas'') [Key ''bhk''])
       (budget_check E)
       (Some ''Maximum budget must be greater than or equal to minimum budget'')
       [Key ''budgetMax'']"

text \<open>
  String helpers of the CSV schema. \<open>split_on\<close> is \<open>String.prototype.split\<close> with a
  one-character separator, \<open>trim\<close> strips the ASCII white space at both ends,
  \<open>parseInt\<close> reads a string of decimal digits (the schema calls it on nothing else;
  the value is exact, not rounded to a double).
\<close>

fun split_on :: "char \<Rightarrow> string \<Rightarrow> string list" where
  "split_on c [] = [[]]"
| "split_on c (x # xs) =
     (if x = c then [] # split_on c xs
      else (case split_on c xs of [] \<Rightarrow> [[x]] | y # ys \<Rightarrow> (x # y) # ys))"

definition is_space :: "char \<Rightarrow> bool" where
  "is_space c = (c \<in> set [CHR 0x09, CHR 0x0A, CHR 0x0B, CHR 0x0C, CHR 0x0D, CHR 0x20])"

definition trim :: "string \<Rightarrow> string" where
  "trim s = rev (dropWhile is_space (rev (dropWhile is_space s)))"

definition digit_val :: "char \<Rightarrow> nat" where
  "digit_val c = of_char c - 48"

definition parseInt :: "string \<Rightarrow> int" where
  "parseInt s = int (foldl (\<lambda>n c. 10 * n + digit_val c) 0 s)"

text \<open>The two transforms of \<open>csvBuyerSchema\<close>; they run on validated strings.\<close>

definition budget_of_cell :: "jsval \<Rightarrow> jsval" where
  "budget_of_cell val =
     (case val of JStr s \<Rightarrow> (if s = [] then JUndefined else JNum (parseInt s))
      | _ \<Rightarrow> JUndefined)"

definition tags_of_cell :: "jsval \<Rightarrow> jsval" where
  "tags_of_cell val =
     (if truthy val
      then (case val of JStr s \<Rightarrow> JArr (map (\<lambda>t. JStr (trim t)) (split_on CHR '','' s))
            | _ \<Rightarrow> JUndefined)
      else JArr [])"

definition csvShape :: "jsenv \<Rightarrow> (string \<times> schema) list" where
  "csvShape E =
     [(''fullName'', zString [smin 2 None, smax 80 None]),
      (''email'', zOr (zOptional (zString [semail E None])) (zLiteral (JStr []))),
      (''phone'', zString [sregex phone_re None]),
      (''city'', zEnum cities),
      (''propertyType'', zEnum propertyTypes),
      (''bhk'', zOr (zOptional (zEnum bhks)) (zLiteral (JStr []))),
      (''purpose'', zEnum purposes),
      (''budgetMin'', zOptional (zTransform (zString [sregex digits_re None]) budget_of_cell)),
      (''budgetMax'', zOptional (zTransform (zString [sregex digits_re None]) budget_of_cell)),
      (''timeline'', zEnum timelines),
      (''source'', zEnum sources),
      (''notes'', zOr (zOptional (zString [smax 1000 None])) (zLiteral (JStr []))),
      (''tags'', zOptional (zTransform (zString []) tags_of_cell)),
      (''status'', zDefault (zOptional (zEnum statuses)) (JStr ''New''))]"

text \<open>The refinements of the CSV schema give neither a message nor a path.\<close>

definition csvBuyerSchema :: "jsenv \<Rightarrow> jsobj \<Rightarrow> jsobj parse" where
  "csvBuyerSchema E =
     zRefine (zRefine (zObject (csvShape E)) bhk_check None []) (budget_check E) None []"

text \<open>An issue is attributed to a field when its path starts with that field.\<close>

definition attributed :: "string \<Rightarrow> issue \<Rightarrow> bool" where
  "attributed f i = (case path i of Key k # q \<Rightarrow> k = f | _ \<Rightarrow> False)"

definition errors_of :: "issue list + 'a \<Rightarrow> issue list" where
  "errors_of r = (case r of Inl is \<Rightarrow> is | Inr d \<Rightarrow> [])"

section \<open>The payloads written to the store\<close>

text \<open>
  The three write paths build the row they send from the validated data:
  \<open>NewBuyer.handleSubmit\<close> (insert), \<open>EditBuyer.handleSubmit\<close> (update) and the
  \<open>dbRows\<close> of \<open>validateAndImportData\<close> (insert of a batch).
\<close>

definition newBuyerRow :: "jsobj \<Rightarrow> string \<Rightarrow> jsobj" where
  "newBuyerRow data uid =
     (\<lambda>k. JUndefined)
     (''full_name'' := data ''fullName'',
      ''email'' := js_or (data ''email'') JNull,
      ''phone'' := data ''phone'',
      ''city'' := data ''city'',
      ''property_type'' := data ''propertyType'',
      ''bhk'' := js_or (data ''bhk'') JNull,
      ''purpose'' := data ''purpose'',
      ''budget_min'' := js_or (data ''budgetMin'') JNull,
      ''budget_max'' := js_or (data ''budgetMax'') JNull,
      ''timeline'' := data ''timeline'',
      ''source'' := data ''source'',
      ''status'' := data ''status'',
      ''notes'' := js_or (data ''notes'') JNull,
      ''tags'' := js_or (data ''tags'') (JArr []),
      ''owner_id'' := JStr uid)"

definition editBuyerRow :: "jsobj \<Rightarrow> jsobj" where
  "editBuyerRow data =
     (\<lambda>k. JUndefined)
     (''full_name'' := data ''fullName'',
      ''email'' := js_or (data ''email'') JNull,
      ''phone'' := data ''phone'',
      ''city'' := data ''city'',
      ''property_type'' := data ''propertyType'',
      ''bhk'' := js_or (data ''bhk'') JNull,
      ''purpose'' := data ''purpose'',
      ''budget_min'' := js_or (data ''budgetMin'') JNull,
      ''budget_max'' := js_or (data ''budgetMax'') JNull,
      ''timeline'' := data ''timeline'',
      ''source'' := data ''source'',
      ''status'' := data ''status'',
      ''notes'' := js_or (data ''notes'') JNull,
      ''tags'' := js_or (data ''tags'') (JArr []))"

text \<open>
  The import first spreads the validated row and adds \<open>owner_id\<close>
  (\<open>validRows.push({...validated, owner_id: user.id})\<close>), then maps it to \<open>dbRows\<close>.
\<close>

definition validRow :: "jsobj \<Rightarrow> string \<Rightarrow> jsobj" where
  "validRow validated uid = validated(''owner_id'' := JStr uid)"

definition importDbRow :: "jsobj \<Rightarrow> jsobj" where
  "importDbRow row =
     (\<lambda>k. JUndefined)
     (''full_name'' := row ''fullName'',
      ''email'' := js_or (row ''email'') JNull,
      ''phone'' := row ''phone'',
      ''city'' := row ''city'',
      ''property_type'' := row ''propertyType'',
      ''bhk'' := js_or (row ''bhk'') JNull,
      ''purpose'' := row ''purpose'',
      ''budget_min'' := js_or (row ''budgetMin'') JNull,
      ''budget_max'' := js_or (row ''budgetMax'') JNull,
      ''timeline'' := row ''timeline'',
      ''source'' := row ''source'',
      ''status'' := js_or (row ''status'') (JStr ''New''),
      ''notes'' := js_or (row ''notes'') JNull,
      ''tags'' := js_or (row ''tags'') (JArr []),
      ''owner_id'' := row ''owner_id'')"

section \<open>The store\<close>

text \<open>
  The table \<open>buyers\<close> of the first migration. A nullable column is an option; the enum
  columns hold the label (the labels a column admits are part of \<open>buyers_check\<close>);
  identifiers are strings and timestamps are numbers.
\<close>

record db_buyer =
  id_col :: string
  full_name :: string
  email :: "string option"
  phone :: string
  city :: string
  property_type :: string
  bhk :: "string option"
  purpose :: string
  budget_min :: "int option"
  budget_max :: "int option"
  timeline :: string
  source :: string
  status :: string
  notes_col :: "string option"
  tags :: "string list option"
  owner_id :: string
  created_at :: nat
  updated_at :: nat

datatype jsonb = JBNull | JBStr string | JBNum int | JBArr "jsonb list"
  | JBObj "(string \<times> jsonb) list"

text \<open>The table \<open>buyer_history\<close> (its own generated id is left out).\<close>

record buyer_history =
  buyer_id :: string
  changed_by :: "string option"
  changed_at :: nat
  diff :: jsonb

record db =
  buyers :: "db_buyer list"
  history :: "buyer_history list"
  uuids_drawn :: nat

datatype db_error = invalid_input | not_null_violation | check_violation | rls_violation

text \<open>
  The pattern of the email constraint,
  \<open>^[A-Za-z0-9._%+-]+@[A-Za-z0-9.-]+\.[A-Za-z]{2,}$\<close>: one \<open>@\<close>, and after it a last
  dot followed by two letters or more.
\<close>

definition is_alpha :: "char \<Rightarrow> bool" where
  "is_alpha c =
     (let n = (of_char c :: nat) in (65 \<le> n \<and> n \<le> 90) \<or> (97 \<le> n \<and> n \<le> 122))"

definition local_char :: "char \<Rightarrow> bool" where
  "local_char c = (is_alpha c \<or> is_digit c \<or> c \<in> set ''._%+-'')"

definition domain_char :: "char \<Rightarrow> bool" where
  "domain_char c = (is_alpha c \<or> is_digit c \<or> c \<in> set ''.-'')"

definition db_email_re :: "string \<Rightarrow> bool" where
  "db_email_re s =
     (case split_on CHR ''@'' s of
        [l, d] \<Rightarrow>
          (let tld = last (split_on CHR ''.'' d);
               dom = take (length d - length tld - 1) d
           in l \<noteq> [] \<and> list_all local_char l
              \<and> 2 \<le> length (split_on CHR ''.'' d)
              \<and> dom \<noteq> [] \<and> list_all domain_char dom
              \<and> 2 \<le> length tld \<and> list_all is_alpha tld)
      | _ \<Rightarrow> False)"

text \<open>The column and table constraints of \<open>buyers\<close>, and the labels of its enum columns.\<close>

definition buyers_check :: "db_buyer \<Rightarrow> bool" where
  "buyers_check r =
     (2 \<le> length (full_name r) \<and> length (full_name r) \<le> 80
      \<and> (case email r of None \<Rightarrow> True | Some e \<Rightarrow> db_email_re e)
      \<and> phone_re (phone r)
      \<and> city r \<in> set cities
      \<and> property_type r \<in> set propertyTypes
      \<and> (case bhk r of None \<Rightarrow> True | Some b \<Rightarrow> b \<in> set bhks)
      \<and> purpose r \<in> set purposes
      \<and> (case budget_min r of None \<Rightarrow> True | Some n \<Rightarrow> 0 \<le> n)
      \<and> (case budget_max r of None \<Rightarrow> True | Some n \<Rightarrow> 0 \<le> n)
      \<and> timeline r \<in> set timelines
      \<and> source r \<in> set sources
      \<and> status r \<in> set statuses
      \<and> (case notes_col r of None \<Rightarrow> True | Some t \<Rightarrow> length t \<le> 1000)
      \<and> (case (budget_min r, budget_max r) of (Some lo, Some hi) \<Rightarrow> lo \<le> hi | _ \<Rightarrow> True)
      \<and> ((property_type r \<in> set [''Apartment'', ''Villa''] \<and> bhk r \<noteq> None)
           \<or> property_type r \<notin> set [''Apartment'', ''Villa'']))"

text \<open>
  How a value sent by the client lands in a column. A key that is undefined is not sent
  (the column keeps its default or its old value). A value of another type than the
  column's is refused here; the write paths never send one after validation.
\<close>

definition col_text :: "jsval \<Rightarrow> string \<Rightarrow> string option" where
  "col_text v old = (case v of JUndefined \<Rightarrow> Some old | JStr s \<Rightarrow> Some s | _ \<Rightarrow> None)"

definition col_text_null :: "jsval \<Rightarrow> string option \<Rightarrow> string option option" where
  "col_text_null v old =
     (case v of JUndefined \<Rightarrow> Some old | JNull \<Rightarrow> Some None | JStr s \<Rightarrow> Some (Some s)
      | _ \<Rightarrow> None)"

definition col_int_null :: "jsval \<Rightarrow> int option \<Rightarrow> int option option" where
  "col_int_null v old =
     (case v of JUndefined \<Rightarrow> Some old | JNull \<Rightarrow> Some None
      | JNum n \<Rightarrow> (if - 2147483648 \<le> n \<and> n \<le> 2147483647 then Some (Some n) else None)
      | _ \<Rightarrow> None)"

fun text_of :: "jsval \<Rightarrow> string option" where
  "text_of (JStr s) = Some s"
| "text_of _ = None"

definition col_array_null :: "jsval \<Rightarrow> string list option \<Rightarrow> string list option option" where
  "col_array_null v old =
     (case v of JUndefined \<Rightarrow> Some old | JNull \<Rightarrow> Some None
      | JArr xs \<Rightarrow> (if list_all (\<lambda>x. text_of x \<noteq> None) xs
                     then Some (Some (map (\<lambda>x. the (text_of x)) xs)) else None)
      | _ \<Rightarrow> None)"

definition assign_columns :: "jsobj \<Rightarrow> db_buyer \<Rightarrow> db_buyer option" where
  "assign_columns p r =
     Option.bind (col_text (p ''full_name'') (full_name r)) (\<lambda>c1.
     Option.bind (col_text_null (p ''email'') (email r)) (\<lambda>c2.
     Option.bind (col_text (p ''phone'') (phone r)) (\<lambda>c3.
     Option.bind (col_text (p ''city'') (city r)) (\<lambda>c4.
     Option.bind (col_text (p ''property_type'') (property_type r)) (\<lambda>c5.
     Option.bind (col_text_null (p ''bhk'') (bhk r)) (\<lambda>c6.
     Option.bind (col_text (p ''purpose'') (purpose r)) (\<lambda>c7.
     Option.bind (col_int_null (p ''budget_min'') (budget_min r)) (\<lambda>c8.
     Option.bind (col_int_null (p ''budget_max'') (budget_max r)) (\<lambda>c9.
     Option.bind (col_text (p ''timeline'') (timeline r)) (\<lambda>c10.
     Option.bind (col_text (p ''source'') (source r)) (\<lambda>c11.
     Option.bind (col_text (p ''status'') (status r)) (\<lambda>c12.
     Option.bind (col_text_null (p ''notes'') (notes_col r)) (\<lambda>c13.
     Option.bind (col_array_null (p ''tags'') (tags r)) (\<lambda>c14.
     Option.bind (col_text (p ''owner_id'') (owner_id r)) (\<lambda>c15.
       Some (r\<lparr>full_name := c1, email := c2, phone := c3, city := c4, property_type := c5,
         bhk := c6, purpose := c7, budget_min := c8, budget_max := c9, timeline := c10,
         source := c11, status := c12, notes_col := c13, tags := c14, owner_id := c15\<rparr>)
     )))))))))))))))"

text \<open>
  The trigger function \<open>track_buyer_changes\<close>. \<open>IS DISTINCT FROM\<close> is inequality with
  null equal to null; \<open>changes || jsonb_build_object(k, v)\<close> sets the key \<open>k\<close>.
\<close>

definition jsonb_concat :: "(string \<times> jsonb) list \<Rightarrow> (string \<times> jsonb) list
     \<Rightarrow> (string \<times> jsonb) list" where
  "jsonb_concat a b = filter (\<lambda>kv. fst kv \<notin> set (map fst b)) a @ b"

definition jb_text :: "string option \<Rightarrow> jsonb" where
  "jb_text v = (case v of None \<Rightarrow> JBNull | Some s \<Rightarrow> JBStr s)"

definition jb_int :: "int option \<Rightarrow> jsonb" where
  "jb_int v = (case v of None \<Rightarrow> JBNull | Some n \<Rightarrow> JBNum n)"

definition jb_array :: "string list option \<Rightarrow> jsonb" where
  "jb_array v = (case v of None \<Rightarrow> JBNull | Some xs \<Rightarrow> JBArr (map JBStr xs))"

definition old_new :: "jsonb \<Rightarrow> jsonb \<Rightarrow> jsonb" where
  "old_new a b = JBObj [(''old'', a), (''new'', b)]"

text \<open>One line per \<open>IF\<close> of the function: the key, the test and the recorded pair.\<close>

definition tracked :: "db_buyer \<Rightarrow> db_buyer \<Rightarrow> (string \<times> bool \<times> jsonb) list" where
  "tracked OLD NEW =
     [(''full_name'', full_name OLD \<noteq> full_name NEW,
         old_new (JBStr (full_name OLD)) (JBStr (full_name NEW))),
      (''email'', email OLD \<noteq> email NEW, old_new (jb_text (email OLD)) (jb_text (email NEW))),
      (''phone'', phone OLD \<noteq> phone NEW, old_new (JBStr (phone OLD)) (JBStr (phone NEW))),
      (''city'', city OLD \<noteq> city NEW, old_new (JBStr (city OLD)) (JBStr (city NEW))),
      (''property_type'', property_type OLD \<noteq> property_type NEW,
         old_new (JBStr (property_type OLD)) (JBStr (property_type NEW))),
      (''bhk'', bhk OLD \<noteq> bhk NEW, old_new (jb_text (bhk OLD)) (jb_text (bhk NEW))),
      (''purpose'', purpose OLD \<noteq> purpose NEW,
         old_new (JBStr (purpose OLD)) (JBStr (purpose NEW))),
      (''budget_min'', budget_min OLD \<noteq> budget_min NEW,
         old_new (jb_int (budget_min OLD)) (jb_int (budget_min NEW))),
      (''budget_max'', budget_max OLD \<noteq> budget_max NEW,
         old_new (jb_int (budget_max OLD)) (jb_int (budget_max NEW))),
      (''timeline'', timeline OLD \<noteq> timeline NEW,
         old_new (JBStr (timeline OLD)) (JBStr (timeline NEW))),
      (''source'', source OLD \<noteq> source NEW,
         old_new (JBStr (source OLD)) (JBStr (source NEW))),
      (''status'', status OLD \<noteq> status NEW,
         old_new (JBStr (status OLD)) (JBStr (status NEW))),
      (''notes'', notes_col OLD \<noteq> notes_col NEW,
         old_new (jb_text (notes_col OLD)) (jb_text (notes_col NEW))),
      (''tags'', tags OLD \<noteq> tags NEW, old_new (jb_array (tags OLD)) (jb_array (tags NEW)))]"

definition changes_of :: "db_buyer \<Rightarrow> db_buyer \<Rightarrow> (string \<times> jsonb) list" where
  "changes_of OLD NEW =
     foldl (\<lambda>changes (k, distinct_from, v).
              if distinct_from then jsonb_concat changes [(k, v)] else changes)
       [] (tracked OLD NEW)"

definition track_buyer_changes ::
  "string \<Rightarrow> nat \<Rightarrow> db_buyer \<Rightarrow> db_buyer \<Rightarrow> buyer_history list \<Rightarrow> buyer_history list"
where
  "track_buyer_changes uid now OLD NEW h =
     (let changes = changes_of OLD NEW in
      if changes \<noteq> []
      then h @ [\<lparr>buyer_id = id_col NEW, changed_by = Some uid, changed_at = now,
                  diff = JBObj changes\<rparr>]
      else h)"

definition log_buyer_creation :: "string \<Rightarrow> nat \<Rightarrow> db_buyer \<Rightarrow> buyer_history list
     \<Rightarrow> buyer_history list" where
  "log_buyer_creation uid now NEW h =
     h @ [\<lparr>buyer_id = id_col NEW, changed_by = Some uid, changed_at = now,
            diff = JBObj [(''action'', JBStr ''created'')]\<rparr>]"

definition update_updated_at_column :: "nat \<Rightarrow> db_buyer \<Rightarrow> db_buyer" where
  "update_updated_at_column now NEW = NEW\<lparr>updated_at := now\<rparr>"

text \<open>
  An insert: the columns the statement must give, the defaults of the others, then the
  row-level policy (\<open>auth.uid() = owner_id\<close>), the constraints and the creation
  trigger. \<open>gen\<close> is the supply of \<open>gen_random_uuid()\<close>. A statement that fails
  leaves the store as it was.
\<close>

definition required_present :: "jsobj \<Rightarrow> bool" where
  "required_present p =
     list_all (\<lambda>k. p k \<noteq> JUndefined)
       [''full_name'', ''phone'', ''city'', ''property_type'', ''purpose'', ''timeline'',
        ''source'', ''owner_id'']"

definition blank_row :: "string \<Rightarrow> nat \<Rightarrow> db_buyer" where
  "blank_row i now =
     \<lparr>id_col = i, full_name = [], email = None, phone = [], city = [], property_type = [],
      bhk = None, purpose = [], budget_min = None, budget_max = None, timeline = [],
      source = [], status = ''New'', notes_col = None, tags = None, owner_id = [],
      created_at = now, updated_at = now\<rparr>"

definition insert_row ::
  "string \<Rightarrow> nat \<Rightarrow> (nat \<Rightarrow> string) \<Rightarrow> jsobj \<Rightarrow> db \<Rightarrow> db_error + db" where
  "insert_row uid now gen p d =
     (if \<not> required_present p then Inl not_null_violation
      else case assign_columns p (blank_row (gen (uuids_drawn d)) now) of
        None \<Rightarrow> Inl invalid_input
      | Some r \<Rightarrow>
          if owner_id r \<noteq> uid then Inl rls_violation
          else if \<not> buyers_check r then Inl check_violation
          else Inr (d\<lparr>buyers := buyers d @ [r],
                      history := log_buyer_creation uid now r (history d),
                      uuids_drawn := Suc (uuids_drawn d)\<rparr>))"

fun db_insert ::
  "string \<Rightarrow> nat \<Rightarrow> (nat \<Rightarrow> string) \<Rightarrow> jsobj list \<Rightarrow> db \<Rightarrow> db_error + db" where
  "db_insert uid now gen [] d = Inr d"
| "db_insert uid now gen (p # ps) d =
     (case insert_row uid now gen p d of
        Inl e \<Rightarrow> Inl e
      | Inr d' \<Rightarrow> db_insert uid now gen ps d')"

text \<open>
  An update \<open>.update(p).eq('id', i)\<close>: the rows with that id that the policy lets the
  user update; on each the columns are set, \<open>update_updated_at_column\<close> runs before the
  write, the policy and the constraints are checked, and \<open>track_buyer_changes\<close> runs
  after the write. Nothing in the statement or in the triggers reads the old
  \<open>updated_at\<close>.
\<close>

definition update_row :: "string \<Rightarrow> nat \<Rightarrow> jsobj \<Rightarrow> db_buyer \<Rightarrow> db_error + db_buyer" where
  "update_row uid now p OLD =
     (case assign_columns p OLD of
        None \<Rightarrow> Inl invalid_input
      | Some r \<Rightarrow>
          (let NEW = update_updated_at_column now r in
           if owner_id NEW \<noteq> uid then Inl rls_violation
           else if \<not> buyers_check NEW then Inl check_violation
           else Inr NEW))"

fun update_rows ::
  "string \<Rightarrow> nat \<Rightarrow> string \<Rightarrow> jsobj \<Rightarrow> db_buyer list \<Rightarrow> buyer_history list
     \<Rightarrow> db_error + (db_buyer list \<times> buyer_history list)" where
  "update_rows uid now i p [] h = Inr ([], h)"
| "update_rows uid now i p (r # rs) h =
     (if id_col r = i \<and> owner_id r = uid
      then (case update_row uid now p r of
              Inl e \<Rightarrow> Inl e
            | Inr NEW \<Rightarrow>
                (case update_rows uid now i p rs (track_buyer_changes uid now r NEW h) of
                   Inl e \<Rightarrow> Inl e
                 | Inr (rs', h') \<Rightarrow> Inr (NEW # rs', h')))
      else (case update_rows uid now i p rs h of
              Inl e \<Rightarrow> Inl e
            | Inr (rs', h') \<Rightarrow> Inr (r # rs', h')))"

definition db_update :: "string \<Rightarrow> nat \<Rightarrow> string \<Rightarrow> jsobj \<Rightarrow> db \<Rightarrow> db_error + db" where
  "db_update uid now i p d =
     (case update_rows uid now i p (buyers d) (history d) of
        Inl e \<Rightarrow> Inl e
      | Inr (bs, h) \<Rightarrow> Inr (d\<lparr>buyers := bs, history := h\<rparr>))"

text \<open>A row as \<open>select('*')\<close> hands it to the client: null for an empty column.\<close>

definition js_text_null :: "string option \<Rightarrow> jsval" where
  "js_text_null v = (case v of None \<Rightarrow> JNull | Some s \<Rightarrow> JStr s)"

definition js_int_null :: "int option \<Rightarrow> jsval" where
  "js_int_null v = (case v of None \<Rightarrow> JNull | Some n \<Rightarrow> JNum n)"

definition js_array_null :: "string list option \<Rightarrow> jsval" where
  "js_array_null v = (case v of None \<Rightarrow> JNull | Some xs \<Rightarrow> JArr (map JStr xs))"

definition js_of_row :: "db_buyer \<Rightarrow> jsobj" where
  "js_of_row r =
     (\<lambda>k. JUndefined)
     (''id'' := JStr (id_col r),
      ''full_name'' := JStr (full_name r),
      ''email'' := js_text_null (email r),
      ''phone'' := JStr (phone r),
      ''city'' := JStr (city r),
      ''property_type'' := JStr (property_type r),
      ''bhk'' := js_text_null (bhk r),
      ''purpose'' := JStr (purpose r),
      ''budget_min'' := js_int_null (budget_min r),
      ''budget_max'' := js_int_null (budget_max r),
      ''timeline'' := JStr (timeline r),
      ''source'' := JStr (source r),
      ''status'' := JStr (status r),
      ''notes'' := js_text_null (notes_col r),
      ''tags'' := js_array_null (tags r),
      ''owner_id'' := JStr (owner_id r),
      ''created_at'' := JNum (int (created_at r)),
      ''updated_at'' := JNum (int (updated_at r)))"

section \<open>The pages that write\<close>

datatype toast = Toast string string | ToastFailure string db_error

text \<open>\<open>NewBuyer.handleSubmit\<close>: the data comes validated from the form.\<close>

definition newBuyerSubmit ::
  "string option \<Rightarrow> nat \<Rightarrow> (nat \<Rightarrow> string) \<Rightarrow> jsobj \<Rightarrow> db \<Rightarrow> toast option \<times> db" where
  "newBuyerSubmit user now gen data d =
     (case user of
        None \<Rightarrow> (None, d)
      | Some uid \<Rightarrow>
          (case db_insert uid now gen [newBuyerRow data uid] d of
             Inl e \<Rightarrow> (Some (ToastFailure ''Error'' e), d)
           | Inr d' \<Rightarrow> (Some (Toast ''Success'' ''Buyer lead created successfully!''), d')))"

text \<open>
  \<open>EditBuyer.handleSubmit\<close>. \<open>buyer\<close> is the row the page loaded when it opened (it
  holds the \<open>updated_at\<close> the editor saw); the update names the row by \<open>buyer.id\<close> only.
\<close>

definition editBuyerSubmit ::
  "string option \<Rightarrow> nat \<Rightarrow> jsobj option \<Rightarrow> jsobj \<Rightarrow> db \<Rightarrow> toast option \<times> db" where
  "editBuyerSubmit user now buyer data d =
     (case (buyer, user) of
        (Some b, Some uid) \<Rightarrow>
          (case b ''id'' of
             JStr i \<Rightarrow>
               (case db_update uid now i (editBuyerRow data) d of
                  Inl e \<Rightarrow> (Some (ToastFailure ''Error'' e), d)
                | Inr d' \<Rightarrow> (Some (Toast ''Success'' ''Buyer lead updated successfully!''), d'))
           | _ \<Rightarrow> (Some (ToastFailure ''Error'' invalid_input), d))
      | _ \<Rightarrow> (None, d))"

section \<open>CSV import and export\<close>

text \<open>
  Text helpers: \<open>Array.prototype.join\<close>, and the decimal text of a number as
  \<open>String(n)\<close> and the CSV writer give it.
\<close>

fun join_with :: "string \<Rightarrow> string list \<Rightarrow> string" where
  "join_with sep [] = []"
| "join_with sep [x] = x"
| "join_with sep (x # y # ys) = x @ sep @ join_with sep (y # ys)"

definition digit_char :: "nat \<Rightarrow> char" where
  "digit_char n = char_of (48 + n)"

fun digits_of :: "nat \<Rightarrow> string" where
  "digits_of n = (if n < 10 then [digit_char n] else digits_of (n div 10) @ [digit_char (n mod 10)])"

declare digits_of.simps [simp del]







text \<open>The state of the import dialog (the progress bar and the busy flag are left out).\<close>

record ImportError =
  ie_row :: nat
  ie_field :: "string option"
  ie_message :: "string option"

record ui_state =
  csvData :: "jsobj list"
  importErrors :: "ImportError list"
  importSuccess :: nat
  toasts :: "toast list"

text \<open>
  \<open>handleFileUpload\<close>: the argument is the chosen file as the CSV parser reads it, its
  data rows (\<open>Inr\<close>) or a parse error (\<open>Inl\<close>); \<open>None\<close> when no file was chosen.
\<close>

definition handleFileUpload :: "(string + jsobj list) option \<Rightarrow> ui_state \<Rightarrow> ui_state" where
  "handleFileUpload file st =
     (case file of
        None \<Rightarrow> st
      | Some res \<Rightarrow>
          (let st1 = st\<lparr>importErrors := [], importSuccess := 0, csvData := []\<rparr> in
           case res of
             Inr rows \<Rightarrow>
               (if length rows > 200
                then st1\<lparr>toasts := toasts st1
                       @ [Toast ''Error'' ''CSV file cannot contain more than 200 rows'']\<rparr>
                else st1\<lparr>csvData := rows\<rparr>)
           | Inl e \<Rightarrow>
               st1\<lparr>toasts := toasts st1 @ [Toast ''Error'' (''Failed to parse CSV: '' @ e)]\<rparr>))"

fun path_text :: "path_elem \<Rightarrow> string" where
  "path_text (Key k) = k"
| "path_text (Idx i) = digits_of i"

definition path_join :: "path_elem list \<Rightarrow> string" where
  "path_join p = join_with ''.'' (map path_text p)"

definition import_errors :: "(issue list + jsobj) list \<Rightarrow> ImportError list" where
  "import_errors rs =
     concat (map (\<lambda>(index, r).
        case r of
          Inl errs \<Rightarrow>
            map (\<lambda>err. \<lparr>ie_row = index + 1, ie_field = Some (path_join (path err)),
                         ie_message = message err\<rparr>) errs
        | Inr validated \<Rightarrow> []) (zip [0..<length rs] rs))"

definition valid_rows :: "string \<Rightarrow> (issue list + jsobj) list \<Rightarrow> jsobj list" where
  "valid_rows uid rs =
     concat (map (\<lambda>r. case r of Inr validated \<Rightarrow> [validRow validated uid] | Inl errs \<Rightarrow> []) rs)"

text \<open>
  The loop over the batches of ten: it stops at the first batch the store refuses; the
  batches inserted before stay (the batches are given one timestamp here).
\<close>

function import_batches ::
  "string \<Rightarrow> nat \<Rightarrow> (nat \<Rightarrow> string) \<Rightarrow> jsobj list \<Rightarrow> nat \<Rightarrow> db
     \<Rightarrow> nat \<times> db_error option \<times> db" where
  "import_batches uid now gen rows imported d =
     (if rows = [] then (imported, None, d)
      else (case db_insert uid now gen (map importDbRow (take 10 rows)) d of
              Inl e \<Rightarrow> (imported, Some e, d)
            | Inr d' \<Rightarrow>
                import_batches uid now gen (drop 10 rows) (imported + length (take 10 rows)) d'))"
  by pat_completeness auto
termination
  by (relation "measure (\<lambda>(uid, now, gen, rows, imported, d). length rows)") auto

declare import_batches.simps [simp del]

definition validateAndImportData ::
  "jsenv \<Rightarrow> string option \<Rightarrow> nat \<Rightarrow> (nat \<Rightarrow> string) \<Rightarrow> ui_state \<Rightarrow> db \<Rightarrow> ui_state \<times> db"
where
  "validateAndImportData E user now gen st d =
     (case user of
        None \<Rightarrow> (st, d)
      | Some uid \<Rightarrow>
          if csvData st = [] then (st, d)
          else
            (let rs = map (zparse (csvBuyerSchema E)) (csvData st);
                 validRows = valid_rows uid rs;
                 st1 = st\<lparr>importErrors := import_errors rs, importSuccess := 0\<rparr>
             in if validRows = []
                then (st1\<lparr>toasts := toasts st1
                        @ [Toast ''Import Failed'' ''No valid rows found to import'']\<rparr>, d)
                else (case import_batches uid now gen validRows 0 d of
                        (imported, None, d') \<Rightarrow>
                          (st1\<lparr>importSuccess := imported,
                               toasts := toasts st1
                                 @ [Toast ''Import Complete''
                                     (''Successfully imported '' @ digits_of imported
                                        @ '' buyer leads'')]\<rparr>, d')
                      | (imported, Some e, d') \<Rightarrow>
                          (st1\<lparr>importSuccess := imported,
                               toasts := toasts st1 @ [ToastFailure ''Import Failed'' e]\<rparr>,
                           d'))))"



section \<open>Sample data\<close>

text \<open>A stored lead and the data of an edit form, used where a property is run on an input.\<close>

definition lead0 :: db_buyer where
  "lead0 =
     \<lparr>id_col = ''b1'', full_name = ''Jane Doe'', email = None, phone = ''9876543210'',
      city = ''Mohali'', property_type = ''Plot'', bhk = None, purpose = ''Buy'',
      budget_min = None, budget_max = None, timeline = ''0-3m'', source = ''Referral'',
      status = ''New'', notes_col = None, tags = Some [], owner_id = ''u1'',
      created_at = 1, updated_at = 1\<rparr>"

definition edit0 :: jsobj where
  "edit0 =
     (\<lambda>k. JUndefined)(''fullName'' := JStr ''Jane D'', ''email'' := JStr [],
        ''phone'' := JStr ''9876543210'', ''city'' := JStr ''Mohali'',
        ''propertyType'' := JStr ''Plot'', ''purpose'' := JStr ''Buy'',
        ''timeline'' := JStr ''0-3m'', ''source'' := JStr ''Referral'',
        ''status'' := JStr ''New'', ''notes'' := JStr [], ''tags'' := JArr [])"


section \<open>Notions used in the proofs\<close>

text \<open>
  A schema is regular when a valid parse raises no issue and every issue it raises lies
  under the path it was given. All the combinators above keep this.
\<close>

definition regular :: "schema \<Rightarrow> bool" where
  "regular sch =
     (\<forall>p v. (is_valid (fst (sch p v)) \<longrightarrow> snd (sch p v) = [])
        \<and> (\<forall>i \<in> set (snd (sch p v)). \<exists>q. path i = p @ q))"

definition regular_shape :: "(string \<times> schema) list \<Rightarrow> bool" where
  "regular_shape shape = (\<forall>(k, sch) \<in> set shape. regular sch)"

section \<open>Properties\<close>

subsection \<open>Unfolding sets and lemmas on the validation library\<close>

lemmas zod_defs = zRefine_def zObject_def zString_def zEnum_def zOr_def zOptional_def
  zDefault_def zLiteral_def zNumber_def zArray_def zTransform_def zparse_def run_checks_def
  smin_def smax_def sregex_def semail_def nmin_def mk_issue_def field_results_def
  field_issues_def aborts_def dirties_def parsed_values_def

lemmas app_defs = buyerSchema_def buyerShape_def csvBuyerSchema_def csvShape_def
  bhk_check_def budget_check_def js_lt_def phone_re_def digits_re_def is_digit_def
  cities_def propertyTypes_def bhks_def purposes_def timelines_def sources_def statuses_def
  budget_of_cell_def tags_of_cell_def parseInt_def digit_val_def trim_def is_space_def

lemma run_checks_path: "i \<in> set (run_checks cs p x) \<Longrightarrow> path i = p"
  by (auto simp: run_checks_def mk_issue_def split: option.splits)

lemma regular_zString: "regular (zString cs)"
  by (auto simp: regular_def zString_def Let_def mk_issue_def dest: run_checks_path split: jsval.splits)

lemma regular_zNumber: "regular (zNumber cs)"
  by (auto simp: regular_def zNumber_def Let_def mk_issue_def dest: run_checks_path split: jsval.splits)

lemma regular_zEnum: "regular (zEnum vs)"
  by (auto simp: regular_def zEnum_def mk_issue_def split: jsval.splits)

lemma regular_zLiteral: "regular (zLiteral l)"
  by (auto simp: regular_def zLiteral_def mk_issue_def)

lemma regular_zOptional: "regular a \<Longrightarrow> regular (zOptional a)"
  by (auto simp: regular_def zOptional_def)

lemma regular_zDefault: "regular a \<Longrightarrow> regular (zDefault a d)"
  by (auto simp: regular_def zDefault_def)

lemma regular_zOr: "regular a \<Longrightarrow> regular b \<Longrightarrow> regular (zOr a b)"
  unfolding regular_def zOr_def Let_def
  by (auto simp: mk_issue_def)

lemma zTransform_snd: "snd (zTransform a f p v) = snd (a p v)"
  by (simp add: zTransform_def split: prod.splits pres.splits)

lemma zTransform_valid: "is_valid (fst (zTransform a f p v)) = is_valid (fst (a p v))"
  by (simp add: zTransform_def split: prod.splits pres.splits)

lemma regular_zTransform: "regular a \<Longrightarrow> regular (zTransform a f)"
  by (simp add: regular_def zTransform_snd zTransform_valid)

lemma pres_trichotomy: "\<not> is_aborted r \<Longrightarrow> \<not> is_dirty r \<Longrightarrow> is_valid r"
  by (cases r) simp_all

lemma regular_zArray:
  assumes "regular a"
  shows "regular (zArray a)"
  unfolding regular_def
proof (intro allI conjI impI ballI)
  fix p v
  assume ok: "is_valid (fst (zArray a p v))"
  show "snd (zArray a p v) = []"
  proof (cases v)
    case (JArr xs)
    let ?rs = "map (\<lambda>(i, x). a (p @ [Idx i]) x) (zip [0..<length xs] xs)"
    from ok JArr have na: "\<not> list_ex (\<lambda>r. is_aborted (fst r)) ?rs"
      and nd: "\<not> list_ex (\<lambda>r. is_dirty (fst r)) ?rs"
      by (auto simp: zArray_def Let_def split: if_splits)
    have "\<forall>r \<in> set ?rs. snd r = []"
    proof
      fix r assume r: "r \<in> set ?rs"
      then obtain i x where "r = a (p @ [Idx i]) x" by auto
      moreover from r na nd have "is_valid (fst r)"
        by (intro pres_trichotomy) (auto simp: list_ex_iff)
      ultimately show "snd r = []" using assms by (simp add: regular_def)
    qed
    then have "concat (map snd ?rs) = []" by simp
    with JArr na nd show ?thesis by (simp add: zArray_def Let_def)
  qed (use ok in \<open>simp_all add: zArray_def\<close>)
next
  fix p v i
  assume i: "i \<in> set (snd (zArray a p v))"
  show "\<exists>q. path i = p @ q"
  proof (cases v)
    case (JArr xs)
    let ?rs = "map (\<lambda>(i, x). a (p @ [Idx i]) x) (zip [0..<length xs] xs)"
    from i JArr have "i \<in> set (concat (map snd ?rs))"
      by (simp add: zArray_def Let_def split: if_splits)
    then obtain j x where "i \<in> set (snd (a (p @ [Idx j]) x))" by auto
    with assms obtain q where "path i = (p @ [Idx j]) @ q"
      unfolding regular_def by blast
    then show ?thesis by simp
  qed (use i in \<open>auto simp: zArray_def mk_issue_def\<close>)
qed

lemmas regular_intros = regular_zString regular_zNumber regular_zEnum regular_zLiteral regular_zOptional regular_zDefault regular_zOr regular_zTransform regular_zArray

lemma regular_buyerShape: "(k, sch) \<in> set (buyerShape E) \<Longrightarrow> regular sch"
  by (auto simp: buyerShape_def intro!: regular_intros)

lemma regular_csvShape: "(k, sch) \<in> set (csvShape E) \<Longrightarrow> regular sch"
  by (auto simp: csvShape_def intro!: regular_intros)


lemma regular_shape_buyer: "regular_shape (buyerShape E)"
  using regular_buyerShape by (auto simp: regular_shape_def)

lemma regular_shape_csv: "regular_shape (csvShape E)"
  using regular_csvShape by (auto simp: regular_shape_def)

lemma field_issues_empty:
  assumes "regular_shape shape" "\<not> aborts shape obj" "\<not> dirties shape obj"
  shows "field_issues shape obj = []"
proof -
  have "snd (sch [Key k] (obj k)) = []" if "(k, sch) \<in> set shape" for k sch
  proof -
    from that assms(2,3) have "\<not> is_aborted (fst (sch [Key k] (obj k)))"
      "\<not> is_dirty (fst (sch [Key k] (obj k)))"
      by (force simp: aborts_def dirties_def field_results_def list_ex_iff)+
    then have "is_valid (fst (sch [Key k] (obj k)))" by (rule pres_trichotomy)
    with that assms(1) show ?thesis by (auto simp: regular_shape_def regular_def)
  qed
  then show ?thesis
    by (auto simp: field_issues_def field_results_def)
qed

lemma field_issue_attributed:
  assumes "regular_shape shape" "(k, sch) \<in> set shape" "i \<in> set (snd (sch [Key k] v))"
  shows "attributed k i"
proof -
  from assms obtain q where "path i = [Key k] @ q"
    unfolding regular_shape_def regular_def by blast
  then show ?thesis by (simp add: attributed_def)
qed

lemma errors_refined:
  assumes "regular_shape shape"
  shows "errors_of (zparse (zRefine (zRefine (zObject shape) c1 m1 p1) c2 m2 p2) obj)
     = field_issues shape obj
       @ (if aborts shape obj then []
          else (if c1 (parsed_values shape obj) then [] else [mk_issue custom p1 m1])
             @ (if c2 (parsed_values shape obj) then [] else [mk_issue custom p2 m2]))"
  using field_issues_empty [OF assms, of obj]
  by (simp add: errors_of_def zparse_def zRefine_def zObject_def)







lemma field_issues_Cons:
  "field_issues ((k, sch) # shape) obj = snd (sch [Key k] (obj k)) @ field_issues shape obj"
  by (simp add: field_issues_def field_results_def)

lemma field_issue_collected:
  "(k, sch) \<in> set shape \<Longrightarrow> set (snd (sch [Key k] (obj k))) \<subseteq> set (field_issues shape obj)"
proof (induction shape)
  case Nil
  then show ?case by simp
next
  case (Cons a shape)
  obtain k' sch' where a: "a = (k', sch')" by (cases a)
  from Cons show ?case by (auto simp: a field_issues_Cons)
qed





lemma errors_buyerSchema:
  "errors_of (zparse (buyerSchema E) c)
     = field_issues (buyerShape E) c
       @ (if aborts (buyerShape E) c then []
          else (if bhk_check (parsed_values (buyerShape E) c) then []
                else [mk_issue custom [Key ''bhk'']
                        (Some ''BHK is required for Apartments and Villas'')])
             @ (if budget_check E (parsed_values (buyerShape E) c) then []
                else [mk_issue custom [Key ''budgetMax'']
                  (Some ''Maximum budget must be greater than or equal to minimum budget'')]))"
  unfolding buyerSchema_def by (rule errors_refined [OF regular_shape_buyer])

lemma errors_csvBuyerSchema:
  "errors_of (zparse (csvBuyerSchema E) c)
     = field_issues (csvShape E) c
       @ (if aborts (csvShape E) c then []
          else (if bhk_check (parsed_values (csvShape E) c) then [] else [mk_issue custom [] None])
             @ (if budget_check E (parsed_values (csvShape E) c) then []
                else [mk_issue custom [] None]))"
  unfolding csvBuyerSchema_def by (rule errors_refined [OF regular_shape_csv])






subsection \<open>C1: every field is checked and its errors are kept\<close>

text \<open>
  C1, as the code has it. In both modes every issue that a field's own schema raises is
  in the returned error list: no field is skipped because another one failed. In form
  mode the list is exactly the issues of the fields, in the order of the schema, followed
  by the errors of the two cross-field rules; the cross-field rules are checked only
  when no field failed with a type or enum error. For the candidate
  \<open>{fullName: "Jo", phone: "12345", city: "Mohali", propertyType: "Apartment",
  purpose: "Buy", timeline: "0-3m", source: "Call"}\<close> the list holds one error on
  \<open>phone\<close> and one on \<open>bhk\<close>.
\<close>

theorem form_collects_field_issues:
  "(\<forall>(k, sch) \<in> set (buyerShape E).
       set (snd (sch [Key k] (c k))) \<subseteq> set (errors_of (zparse (buyerSchema E) c)))
   \<and> (\<forall>(k, sch) \<in> set (csvShape E).
       set (snd (sch [Key k] (c k))) \<subseteq> set (errors_of (zparse (csvBuyerSchema E) c)))
   \<and> (aborts (buyerShape E) c \<longrightarrow>
        errors_of (zparse (buyerSchema E) c) = field_issues (buyerShape E) c)
   \<and> (\<not> aborts (buyerShape E) c \<longrightarrow>
        errors_of (zparse (buyerSchema E) c)
          = field_issues (buyerShape E) c
            @ (if bhk_check (parsed_values (buyerShape E) c) then []
               else [mk_issue custom [Key ''bhk'']
                       (Some ''BHK is required for Apartments and Villas'')])
            @ (if budget_check E (parsed_values (buyerShape E) c) then []
               else [mk_issue custom [Key ''budgetMax'']
                 (Some ''Maximum budget must be greater than or equal to minimum budget'')]))
   \<and> map path (errors_of (zparse (buyerSchema E)
          ((\<lambda>k. JUndefined)(''fullName'' := JStr ''Jo'', ''phone'' := JStr ''12345'',
             ''city'' := JStr ''Mohali'', ''propertyType'' := JStr ''Apartment'',
             ''purpose'' := JStr ''Buy'', ''timeline'' := JStr ''0-3m'',
             ''source'' := JStr ''Call''))))
       = [[Key ''phone''], [Key ''bhk'']]"
proof (intro conjI)
  show "\<forall>(k, sch) \<in> set (buyerShape E).
       set (snd (sch [Key k] (c k))) \<subseteq> set (errors_of (zparse (buyerSchema E) c))"
    using field_issue_collected [of _ _ "buyerShape E" c]
    by (auto simp: errors_buyerSchema)
  show "\<forall>(k, sch) \<in> set (csvShape E).
       set (snd (sch [Key k] (c k))) \<subseteq> set (errors_of (zparse (csvBuyerSchema E) c))"
    using field_issue_collected [of _ _ "csvShape E" c]
    by (auto simp: errors_csvBuyerSchema)
  show "aborts (buyerShape E) c \<longrightarrow>
        errors_of (zparse (buyerSchema E) c) = field_issues (buyerShape E) c"
    by (simp add: errors_buyerSchema)
  show "\<not> aborts (buyerShape E) c \<longrightarrow>
        errors_of (zparse (buyerSchema E) c)
          = field_issues (buyerShape E) c
            @ (if bhk_check (parsed_values (buyerShape E) c) then []
               else [mk_issue custom [Key ''bhk'']
                       (Some ''BHK is required for Apartments and Villas'')])
            @ (if budget_check E (parsed_values (buyerShape E) c) then []
               else [mk_issue custom [Key ''budgetMax'']
                 (Some ''Maximum budget must be greater than or equal to minimum budget'')])"
    by (simp add: errors_buyerSchema)
  show "map path (errors_of (zparse (buyerSchema E)
          ((\<lambda>k. JUndefined)(''fullName'' := JStr ''Jo'', ''phone'' := JStr ''12345'',
             ''city'' := JStr ''Mohali'', ''propertyType'' := JStr ''Apartment'',
             ''purpose'' := JStr ''Buy'', ''timeline'' := JStr ''0-3m'',
             ''source'' := JStr ''Call''))))
       = [[Key ''phone''], [Key ''bhk'']]"
    by (simp add: zod_defs app_defs errors_of_def)
qed

text \<open>
  The claim as it was stated fails: a candidate with three failing fields (a name of one
  character, a city outside the enum, no \<open>bhk\<close> for an Apartment) gets two errors, and
  none on \<open>bhk\<close>.
\<close>

theorem form_collects_field_issues_counterexample:
  "map path (errors_of (zparse (buyerSchema \<lparr>email_ok = (\<lambda>s. True), lt_other = (\<lambda>a b. False)\<rparr>)
          ((\<lambda>k. JUndefined)(''fullName'' := JStr ''J'', ''phone'' := JStr ''9876543210'',
             ''city'' := JStr ''Delhi'', ''propertyType'' := JStr ''Apartment'',
             ''purpose'' := JStr ''Buy'', ''timeline'' := JStr ''0-3m'',
             ''source'' := JStr ''Call''))))
     = [[Key ''fullName''], [Key ''city'']]"
  by (simp add: zod_defs app_defs errors_of_def)

theorem form_collects_field_issues_witness:
  "set (snd (zString [sregex phone_re (Some ''Phone must be 10-15 digits'')] [Key ''phone'']
          (JStr ''12345'')))
     \<subseteq> set (errors_of (zparse (buyerSchema \<lparr>email_ok = (\<lambda>s. True), lt_other = (\<lambda>a b. False)\<rparr>)
          ((\<lambda>k. JUndefined)(''fullName'' := JStr ''Jo'', ''phone'' := JStr ''12345'',
             ''city'' := JStr ''Mohali'', ''propertyType'' := JStr ''Apartment'',
             ''purpose'' := JStr ''Buy'', ''timeline'' := JStr ''0-3m'',
             ''source'' := JStr ''Call''))))
   \<and> snd (zString [sregex phone_re (Some ''Phone must be 10-15 digits'')] [Key ''phone'']
          (JStr ''12345''))
     = [\<lparr>code = invalid_string, path = [Key ''phone''],
          message = Some ''Phone must be 10-15 digits''\<rparr>]"
proof -
  let ?E = "\<lparr>email_ok = (\<lambda>s. True), lt_other = (\<lambda>a b. False)\<rparr>"
  let ?c = "(\<lambda>k. JUndefined)(''fullName'' := JStr ''Jo'', ''phone'' := JStr ''12345'',
             ''city'' := JStr ''Mohali'', ''propertyType'' := JStr ''Apartment'',
             ''purpose'' := JStr ''Buy'', ''timeline'' := JStr ''0-3m'',
             ''source'' := JStr ''Call'')"
  have m: "(''phone'', zString [sregex phone_re (Some ''Phone must be 10-15 digits'')])
      \<in> set (buyerShape ?E)"
    by (simp add: buyerShape_def)
  have v: "?c ''phone'' = JStr ''12345''" by simp
  have e: "snd (zString [sregex phone_re (Some ''Phone must be 10-15 digits'')] [Key ''phone'']
          (JStr ''12345''))
     = [\<lparr>code = invalid_string, path = [Key ''phone''],
          message = Some ''Phone must be 10-15 digits''\<rparr>]"
    by (simp add: zod_defs app_defs)
  from form_collects_field_issues [of ?E ?c] m
  have "set (snd (zString [sregex phone_re (Some ''Phone must be 10-15 digits'')]
          [Key ''phone''] (?c ''phone''))) \<subseteq> set (errors_of (zparse (buyerSchema ?E) ?c))"
    by blast
  with v e show ?thesis by simp
qed

subsection \<open>C2: an edit of a lead that changed in between\<close>

text \<open>
  C2 at the input where the code leaves it. The editor loaded the lead when its
  \<open>updated_at\<close> was 1; since then the stored row was changed (its status is now
  Contacted and its \<open>updated_at\<close> is 20). Submitting the form writes the row all the
  same: the page reports success, the stored status goes back to New and nothing is
  refused as stale. The update names the row by its id only.
\<close>

theorem stale_edit_overwrites:
  "js_of_row lead0 ''updated_at'' = JNum 1
   \<and> map updated_at (buyers \<lparr>buyers = [lead0\<lparr>status := ''Contacted'', updated_at := 20\<rparr>],
         history = [], uuids_drawn = 1\<rparr>) = [20]
   \<and> fst (editBuyerSubmit (Some ''u1'') 30 (Some (js_of_row lead0))
        (projr (zparse (buyerSchema E) edit0))
        \<lparr>buyers = [lead0\<lparr>status := ''Contacted'', updated_at := 20\<rparr>],
          history = [], uuids_drawn = 1\<rparr>)
     = Some (Toast ''Success'' ''Buyer lead updated successfully!'')
   \<and> buyers (snd (editBuyerSubmit (Some ''u1'') 30 (Some (js_of_row lead0))
        (projr (zparse (buyerSchema E) edit0))
        \<lparr>buyers = [lead0\<lparr>status := ''Contacted'', updated_at := 20\<rparr>],
          history = [], uuids_drawn = 1\<rparr>))
     = [lead0\<lparr>full_name := ''Jane D'', status := ''New'', updated_at := 30\<rparr>]"
proof -
  have p: "zparse (buyerSchema E) edit0 = Inr (parsed_values (buyerShape E) edit0)"
    by (simp add: zod_defs app_defs edit0_def)
  have v: "editBuyerRow (parsed_values (buyerShape E) edit0) =
     (\<lambda>k. JUndefined)
     (''full_name'' := JStr ''Jane D'', ''email'' := JNull, ''phone'' := JStr ''9876543210'',
      ''city'' := JStr ''Mohali'', ''property_type'' := JStr ''Plot'', ''bhk'' := JNull,
      ''purpose'' := JStr ''Buy'', ''budget_min'' := JNull, ''budget_max'' := JNull,
      ''timeline'' := JStr ''0-3m'', ''source'' := JStr ''Referral'', ''status'' := JStr ''New'',
      ''notes'' := JNull, ''tags'' := JArr [])"
    by (simp add: editBuyerRow_def js_or_def zod_defs app_defs edit0_def)
  let ?stored = "lead0\<lparr>status := ''Contacted'', updated_at := 20\<rparr>"
  let ?p = "(\<lambda>k. JUndefined)
     (''full_name'' := JStr ''Jane D'', ''email'' := JNull, ''phone'' := JStr ''9876543210'',
      ''city'' := JStr ''Mohali'', ''property_type'' := JStr ''Plot'', ''bhk'' := JNull,
      ''purpose'' := JStr ''Buy'', ''budget_min'' := JNull, ''budget_max'' := JNull,
      ''timeline'' := JStr ''0-3m'', ''source'' := JStr ''Referral'', ''status'' := JStr ''New'',
      ''notes'' := JNull, ''tags'' := JArr [])"
  let ?new = "lead0\<lparr>full_name := ''Jane D'', status := ''New'', updated_at := 30\<rparr>"
  have a: "assign_columns ?p ?stored = Some (lead0\<lparr>full_name := ''Jane D'', status := ''New'', updated_at := 20\<rparr>)"
    by (simp add: assign_columns_def col_text_def col_text_null_def col_int_null_def
        col_array_null_def lead0_def)
  have c: "buyers_check ?new"
    by (simp add: buyers_check_def lead0_def app_defs)
  have b: "update_row ''u1'' 30 ?p ?stored = Inr ?new"
    unfolding update_row_def a using c
    by (simp add: update_updated_at_column_def lead0_def)
  have i: "js_of_row lead0 ''id'' = JStr ''b1''" "js_of_row lead0 ''updated_at'' = JNum 1"
    by (simp_all add: js_of_row_def lead0_def)
  have ids: "id_col ?stored = ''b1''" "owner_id ?stored = ''u1''"
    by (simp_all add: lead0_def)
  have u: "\<exists>h. update_rows ''u1'' 30 ''b1'' ?p [?stored] [] = Inr ([?new], h)"
    by (simp add: b ids)
  then obtain h where "update_rows ''u1'' 30 ''b1'' ?p [?stored] [] = Inr ([?new], h)" ..
  then have d: "db_update ''u1'' 30 ''b1'' ?p
       \<lparr>buyers = [?stored], history = [], uuids_drawn = 1\<rparr>
     = Inr \<lparr>buyers = [?new], history = h, uuids_drawn = 1\<rparr>"
    by (simp add: db_update_def)
  show ?thesis
    unfolding p sum.sel
    by (simp add: editBuyerSubmit_def v i d del: One_nat_def)
qed

subsection \<open>C3: the rule on the two budgets\<close>

text \<open>
  C3 at the input where the code leaves it: in form mode a candidate with
  \<open>budgetMin = 5\<close> and \<open>budgetMax = 0\<close> (all other fields valid) is accepted, with no
  error at all, although \<open>budgetMax < budgetMin\<close>: the rule reads both budgets by
  truthiness and 0 is falsy. In csv mode a row with \<open>budgetMin = "10"\<close> and
  \<open>budgetMax = "5"\<close> is rejected with one error whose path is empty: it is not
  attributed to \<open>budgetMax\<close>.
\<close>

theorem zero_budget_max_below_min_accepted:
  "\<not> isl (zparse (buyerSchema E)
     ((\<lambda>k. JUndefined)(''fullName'' := JStr ''Jane Doe'',
        ''phone'' := JStr ''9876543210'', ''city'' := JStr ''Mohali'',
        ''propertyType'' := JStr ''Plot'', ''purpose'' := JStr ''Buy'',
        ''budgetMin'' := JNum 5, ''budgetMax'' := JNum 0, ''timeline'' := JStr ''0-3m'',
        ''source'' := JStr ''Referral'')))
   \<and> errors_of (zparse (csvBuyerSchema E)
     ((\<lambda>k. JUndefined)(''fullName'' := JStr ''Jane Doe'', ''email'' := JStr [],
        ''phone'' := JStr ''9876543210'', ''city'' := JStr ''Mohali'',
        ''propertyType'' := JStr ''Plot'', ''bhk'' := JStr [], ''purpose'' := JStr ''Buy'',
        ''budgetMin'' := JStr ''10'', ''budgetMax'' := JStr ''5'', ''timeline'' := JStr ''0-3m'',
        ''source'' := JStr ''Referral'', ''notes'' := JStr [], ''tags'' := JStr [],
        ''status'' := JStr ''New'')))
     = [\<lparr>code = custom, path = [], message = None\<rparr>]"
  by (simp add: zod_defs app_defs errors_of_def)

subsection \<open>C4: export followed by import\<close>



































subsection \<open>C5: the diff of an update\<close>

text \<open>
  Lemmas on \<open>changes_of\<close>: the keys of \<open>tracked\<close> are distinct, so the loop of
  \<open>track_buyer_changes\<close> appends one entry for each tracked column that differs.
\<close>

lemma jsonb_concat_fresh: "k \<notin> set (map fst a) \<Longrightarrow> jsonb_concat a [(k, v)] = a @ [(k, v)]"
  by (induction a) (auto simp: jsonb_concat_def)

lemma foldl_changes:
  assumes "distinct (map fst xs)" "set (map fst acc) \<inter> set (map fst xs) = {}"
  shows "foldl (\<lambda>changes (k, distinct_from, v).
              if distinct_from then jsonb_concat changes [(k, v)] else changes) acc xs
     = acc @ map (\<lambda>(k, d, v). (k, v)) (filter (\<lambda>(k, d, v). d) xs)"
  using assms
proof (induction xs arbitrary: acc)
  case Nil
  then show ?case by simp
next
  case (Cons x xs)
  obtain k d v where x: "x = (k, d, v)" by (cases x)
  from Cons.prems x have fresh: "k \<notin> set (map fst acc)" by auto
  show ?case
  proof (cases d)
    case True
    have "set (map fst (acc @ [(k, v)])) \<inter> set (map fst xs) = {}"
      using Cons.prems x by auto
    with Cons.IH [of "acc @ [(k, v)]"] Cons.prems True x fresh
    show ?thesis by (simp add: jsonb_concat_fresh)
  next
    case False
    have "set (map fst acc) \<inter> set (map fst xs) = {}" using Cons.prems by auto
    with Cons.IH [of acc] Cons.prems False x show ?thesis by simp
  qed
qed

lemma tracked_keys:
  "map fst (tracked OLD NEW) =
     [''full_name'', ''email'', ''phone'', ''city'', ''property_type'', ''bhk'', ''purpose'',
      ''budget_min'', ''budget_max'', ''timeline'', ''source'', ''status'', ''notes'', ''tags'']"
  by (simp add: tracked_def)

lemma tracked_distinct: "distinct (map fst (tracked OLD NEW))"
  unfolding tracked_keys by simp

lemma changes_of_closed:
  "changes_of OLD NEW = map (\<lambda>(k, d, v). (k, v)) (filter (\<lambda>(k, d, v). d) (tracked OLD NEW))"
  unfolding changes_of_def
  using foldl_changes [OF tracked_distinct, of "[]" OLD NEW] by simp

lemma map_of_selected:
  "distinct (map fst xs) \<Longrightarrow>
   map_of (map (\<lambda>(k, d, v). (k, v)) (filter (\<lambda>(k, d, v). d) xs)) k
     = (case map_of xs k of None \<Rightarrow> None | Some (d, v) \<Rightarrow> if d then Some v else None)"
proof (induction xs)
  case Nil
  then show ?case by simp
next
  case (Cons x xs)
  obtain k' d v where x: "x = (k', d, v)" by (cases x)
  from Cons.prems x have "k' \<notin> fst ` set xs" by auto
  then have "map_of xs k' = None" by (simp add: map_of_eq_None_iff)
  with Cons x show ?case by (auto split: option.splits)
qed

lemma map_of_changes:
  "map_of (changes_of OLD NEW) k
     = (case map_of (tracked OLD NEW) k of None \<Rightarrow> None
        | Some (d, v) \<Rightarrow> if d then Some v else None)"
  unfolding changes_of_closed by (rule map_of_selected [OF tracked_distinct])

lemma changes_keys_distinct: "distinct (map fst (changes_of OLD NEW))"
proof -
  have "map fst (changes_of OLD NEW) = map fst (filter (\<lambda>(k, d, v). d) (tracked OLD NEW))"
    by (simp add: changes_of_closed split_def comp_def)
  with distinct_map_filter [OF tracked_distinct] show ?thesis by simp
qed

lemma changes_empty:
  "(changes_of OLD NEW = []) =
     (full_name OLD = full_name NEW \<and> email OLD = email NEW \<and> phone OLD = phone NEW
      \<and> city OLD = city NEW \<and> property_type OLD = property_type NEW \<and> bhk OLD = bhk NEW
      \<and> purpose OLD = purpose NEW \<and> budget_min OLD = budget_min NEW
      \<and> budget_max OLD = budget_max NEW \<and> timeline OLD = timeline NEW
      \<and> source OLD = source NEW \<and> status OLD = status NEW
      \<and> notes_col OLD = notes_col NEW \<and> tags OLD = tags NEW)"
proof -
  have "(changes_of OLD NEW = []) = (\<not> list_ex (\<lambda>(k, d, v). d) (tracked OLD NEW))"
    by (simp add: changes_of_closed filter_empty_conv list_ex_iff split_def)
  also have "\<dots> = (full_name OLD = full_name NEW \<and> email OLD = email NEW \<and> phone OLD = phone NEW
      \<and> city OLD = city NEW \<and> property_type OLD = property_type NEW \<and> bhk OLD = bhk NEW
      \<and> purpose OLD = purpose NEW \<and> budget_min OLD = budget_min NEW
      \<and> budget_max OLD = budget_max NEW \<and> timeline OLD = timeline NEW
      \<and> source OLD = source NEW \<and> status OLD = status NEW
      \<and> notes_col OLD = notes_col NEW \<and> tags OLD = tags NEW)"
    by (simp add: tracked_def, blast)
  finally show ?thesis .
qed

text \<open>
  C5, as the code has it. For every pair of rows (previous, next) the diff holds an
  entry for a column exactly when it is one of the fourteen tracked columns (every
  column but \<open>id\<close>, \<open>owner_id\<close>, \<open>created_at\<close> and \<open>updated_at\<close>) and its value differs;
  the entry records the previous value as \<open>old\<close> and the next as \<open>new\<close>; no key
  occurs twice. When no tracked column differs the history is left as it is; otherwise
  one entry with this diff is appended.
\<close>

theorem update_diff:
  "map_of (changes_of OLD NEW) ''full_name''
     = (if full_name OLD \<noteq> full_name NEW
        then Some (old_new (JBStr (full_name OLD)) (JBStr (full_name NEW))) else None)
   \<and> map_of (changes_of OLD NEW) ''email''
     = (if email OLD \<noteq> email NEW
        then Some (old_new (jb_text (email OLD)) (jb_text (email NEW))) else None)
   \<and> map_of (changes_of OLD NEW) ''phone''
     = (if phone OLD \<noteq> phone NEW
        then Some (old_new (JBStr (phone OLD)) (JBStr (phone NEW))) else None)
   \<and> map_of (changes_of OLD NEW) ''city''
     = (if city OLD \<noteq> city NEW
        then Some (old_new (JBStr (city OLD)) (JBStr (city NEW))) else None)
   \<and> map_of (changes_of OLD NEW) ''property_type''
     = (if property_type OLD \<noteq> property_type NEW
        then Some (old_new (JBStr (property_type OLD)) (JBStr (property_type NEW))) else None)
   \<and> map_of (changes_of OLD NEW) ''bhk''
     = (if bhk OLD \<noteq> bhk NEW
        then Some (old_new (jb_text (bhk OLD)) (jb_text (bhk NEW))) else None)
   \<and> map_of (changes_of OLD NEW) ''purpose''
     = (if purpose OLD \<noteq> purpose NEW
        then Some (old_new (JBStr (purpose OLD)) (JBStr (purpose NEW))) else None)
   \<and> map_of (changes_of OLD NEW) ''budget_min''
     = (if budget_min OLD \<noteq> budget_min NEW
        then Some (old_new (jb_int (budget_min OLD)) (jb_int (budget_min NEW))) else None)
   \<and> map_of (changes_of OLD NEW) ''budget_max''
     = (if budget_max OLD \<noteq> budget_max NEW
        then Some (old_new (jb_int (budget_max OLD)) (jb_int (budget_max NEW))) else None)
   \<and> map_of (changes_of OLD NEW) ''timeline''
     = (if timeline OLD \<noteq> timeline NEW
        then Some (old_new (JBStr (timeline OLD)) (JBStr (timeline NEW))) else None)
   \<and> map_of (changes_of OLD NEW) ''source''
     = (if source OLD \<noteq> source NEW
        then Some (old_new (JBStr (source OLD)) (JBStr (source NEW))) else None)
   \<and> map_of (changes_of OLD NEW) ''status''
     = (if status OLD \<noteq> status NEW
        then Some (old_new (JBStr (status OLD)) (JBStr (status NEW))) else None)
   \<and> map_of (changes_of OLD NEW) ''notes''
     = (if notes_col OLD \<noteq> notes_col NEW
        then Some (old_new (jb_text (notes_col OLD)) (jb_text (notes_col NEW))) else None)
   \<and> map_of (changes_of OLD NEW) ''tags''
     = (if tags OLD \<noteq> tags NEW
        then Some (old_new (jb_array (tags OLD)) (jb_array (tags NEW))) else None)
   \<and> distinct (map fst (changes_of OLD NEW))
   \<and> set (map fst (changes_of OLD NEW))
       \<subseteq> set [''full_name'', ''email'', ''phone'', ''city'', ''property_type'', ''bhk'',
            ''purpose'', ''budget_min'', ''budget_max'', ''timeline'', ''source'', ''status'',
            ''notes'', ''tags'']
   \<and> track_buyer_changes uid now OLD NEW h
     = (if full_name OLD = full_name NEW \<and> email OLD = email NEW \<and> phone OLD = phone NEW
          \<and> city OLD = city NEW \<and> property_type OLD = property_type NEW \<and> bhk OLD = bhk NEW
          \<and> purpose OLD = purpose NEW \<and> budget_min OLD = budget_min NEW
          \<and> budget_max OLD = budget_max NEW \<and> timeline OLD = timeline NEW
          \<and> source OLD = source NEW \<and> status OLD = status NEW
          \<and> notes_col OLD = notes_col NEW \<and> tags OLD = tags NEW
        then h
        else h @ [\<lparr>buyer_id = id_col NEW, changed_by = Some uid, changed_at = now,
                    diff = JBObj (changes_of OLD NEW)\<rparr>])"
proof -
  have keys: "set (map fst (changes_of OLD NEW))
       \<subseteq> set [''full_name'', ''email'', ''phone'', ''city'', ''property_type'', ''bhk'',
            ''purpose'', ''budget_min'', ''budget_max'', ''timeline'', ''source'', ''status'',
            ''notes'', ''tags'']"
  proof -
    have "set (map fst (changes_of OLD NEW)) \<subseteq> set (map fst (tracked OLD NEW))"
      unfolding changes_of_closed by force
    then show ?thesis unfolding tracked_keys .
  qed
  have hist: "track_buyer_changes uid now OLD NEW h
     = (if changes_of OLD NEW = [] then h
        else h @ [\<lparr>buyer_id = id_col NEW, changed_by = Some uid, changed_at = now,
                    diff = JBObj (changes_of OLD NEW)\<rparr>])"
    by (simp add: track_buyer_changes_def Let_def)
  have m: "map_of (tracked OLD NEW) ''full_name''
        = Some (full_name OLD \<noteq> full_name NEW, old_new (JBStr (full_name OLD)) (JBStr (full_name NEW)))"
    "map_of (tracked OLD NEW) ''email''
        = Some (email OLD \<noteq> email NEW, old_new (jb_text (email OLD)) (jb_text (email NEW)))"
    "map_of (tracked OLD NEW) ''phone''
        = Some (phone OLD \<noteq> phone NEW, old_new (JBStr (phone OLD)) (JBStr (phone NEW)))"
    "map_of (tracked OLD NEW) ''city''
        = Some (city OLD \<noteq> city NEW, old_new (JBStr (city OLD)) (JBStr (city NEW)))"
    "map_of (tracked OLD NEW) ''property_type''
        = Some (property_type OLD \<noteq> property_type NEW,
            old_new (JBStr (property_type OLD)) (JBStr (property_type NEW)))"
    "map_of (tracked OLD NEW) ''bhk''
        = Some (bhk OLD \<noteq> bhk NEW, old_new (jb_text (bhk OLD)) (jb_text (bhk NEW)))"
    "map_of (tracked OLD NEW) ''purpose''
        = Some (purpose OLD \<noteq> purpose NEW, old_new (JBStr (purpose OLD)) (JBStr (purpose NEW)))"
    "map_of (tracked OLD NEW) ''budget_min''
        = Some (budget_min OLD \<noteq> budget_min NEW,
            old_new (jb_int (budget_min OLD)) (jb_int (budget_min NEW)))"
    "map_of (tracked OLD NEW) ''budget_max''
        = Some (budget_max OLD \<noteq> budget_max NEW,
            old_new (jb_int (budget_max OLD)) (jb_int (budget_max NEW)))"
    "map_of (tracked OLD NEW) ''timeline''
        = Some (timeline OLD \<noteq> timeline NEW, old_new (JBStr (timeline OLD)) (JBStr (timeline NEW)))"
    "map_of (tracked OLD NEW) ''source''
        = Some (source OLD \<noteq> source NEW, old_new (JBStr (source OLD)) (JBStr (source NEW)))"
    "map_of (tracked OLD NEW) ''status''
        = Some (status OLD \<noteq> status NEW, old_new (JBStr (status OLD)) (JBStr (status NEW)))"
    "map_of (tracked OLD NEW) ''notes''
        = Some (notes_col OLD \<noteq> notes_col NEW,
            old_new (jb_text (notes_col OLD)) (jb_text (notes_col NEW)))"
    "map_of (tracked OLD NEW) ''tags''
        = Some (tags OLD \<noteq> tags NEW, old_new (jb_array (tags OLD)) (jb_array (tags NEW)))"
    by (simp_all add: tracked_def)
  show ?thesis
    unfolding map_of_changes m hist changes_empty
    using keys changes_keys_distinct [of OLD NEW] by simp
qed

text \<open>
  The claim as it was stated counts \<open>updated_at\<close> among the compared fields; two rows
  that differ in \<open>updated_at\<close> alone give an empty diff and no history entry.
\<close>

theorem update_diff_counterexample:
  "updated_at lead0 \<noteq> updated_at (lead0\<lparr>updated_at := 2\<rparr>)
   \<and> changes_of lead0 (lead0\<lparr>updated_at := 2\<rparr>) = []
   \<and> track_buyer_changes ''u1'' 2 lead0 (lead0\<lparr>updated_at := 2\<rparr>) [] = []"
  by (simp add: changes_empty track_buyer_changes_def lead0_def)

theorem update_diff_witness:
  "map_of (changes_of lead0 (lead0\<lparr>status := ''Qualified''\<rparr>)) ''status''
     = Some (old_new (JBStr ''New'') (JBStr ''Qualified''))
   \<and> map_of (changes_of lead0 (lead0\<lparr>status := ''Qualified''\<rparr>)) ''phone'' = None
   \<and> length (track_buyer_changes ''u1'' 2 lead0 (lead0\<lparr>status := ''Qualified''\<rparr>) []) = 1"
  using update_diff [of lead0 "lead0\<lparr>status := ''Qualified''\<rparr>" "''u1''" 2 "[]"]
  by (simp add: lead0_def)

subsection \<open>C6: the rule on bhk\<close>




subsection \<open>C7: an empty status cell\<close>

text \<open>
  C7 at the input where the code leaves it: a CSV row that is valid in every other
  field and whose \<open>status\<close> cell is the empty string is rejected, with one error on
  \<open>status\<close> (the empty string is not undefined, so the default does not apply, and it is
  not a label of the enum).
\<close>

theorem empty_status_cell_rejected:
  "zparse (csvBuyerSchema E)
     ((\<lambda>k. JUndefined)(''fullName'' := JStr ''Jane Doe'', ''email'' := JStr [],
        ''phone'' := JStr ''9876543210'', ''city'' := JStr ''Mohali'',
        ''propertyType'' := JStr ''Plot'', ''bhk'' := JStr [], ''purpose'' := JStr ''Buy'',
        ''budgetMin'' := JStr [], ''budgetMax'' := JStr [], ''timeline'' := JStr ''0-3m'',
        ''source'' := JStr ''Referral'', ''notes'' := JStr [], ''tags'' := JStr [],
        ''status'' := JStr []))
   = Inl [\<lparr>code = invalid_enum_value, path = [Key ''status''], message = None\<rparr>]"
  by (simp add: zod_defs app_defs)

subsection \<open>C8: a file of more than 200 rows\<close>

text \<open>
  C8. When the file holds more than 200 data rows, \<open>handleFileUpload\<close> reports the
  error, keeps no row (\<open>csvData\<close> is empty, as are the per-row errors and the success
  count), and an import started afterwards returns at once: nothing is validated, no
  per-row outcome is produced and the store is unchanged.
\<close>

theorem oversized_batch_rejected:
  assumes "length rows > 200"
  shows "handleFileUpload (Some (Inr rows)) st
           = st\<lparr>importErrors := [], importSuccess := 0, csvData := [],
                toasts := toasts st @ [Toast ''Error'' ''CSV file cannot contain more than 200 rows'']\<rparr>
         \<and> validateAndImportData E user now gen (handleFileUpload (Some (Inr rows)) st) d
           = (handleFileUpload (Some (Inr rows)) st, d)"
  using assms by (simp add: handleFileUpload_def validateAndImportData_def split: option.splits)

theorem oversized_batch_rejected_witness:
  "toasts (handleFileUpload (Some (Inr (replicate 201 (\<lambda>k. JUndefined))))
      \<lparr>csvData = [], importErrors = [], importSuccess = 0, toasts = []\<rparr>)
     = [Toast ''Error'' ''CSV file cannot contain more than 200 rows'']
   \<and> csvData (handleFileUpload (Some (Inr (replicate 201 (\<lambda>k. JUndefined))))
      \<lparr>csvData = [], importErrors = [], importSuccess = 0, toasts = []\<rparr>) = []
   \<and> importErrors (fst (validateAndImportData
        \<lparr>email_ok = (\<lambda>s. True), lt_other = (\<lambda>a b. False)\<rparr> (Some ''u1'') 5 (\<lambda>n. ''id'')
        (handleFileUpload (Some (Inr (replicate 201 (\<lambda>k. JUndefined))))
           \<lparr>csvData = [], importErrors = [], importSuccess = 0, toasts = []\<rparr>)
        \<lparr>buyers = [], history = [], uuids_drawn = 0\<rparr>)) = []
   \<and> snd (validateAndImportData
        \<lparr>email_ok = (\<lambda>s. True), lt_other = (\<lambda>a b. False)\<rparr> (Some ''u1'') 5 (\<lambda>n. ''id'')
        (handleFileUpload (Some (Inr (replicate 201 (\<lambda>k. JUndefined))))
           \<lparr>csvData = [], importErrors = [], importSuccess = 0, toasts = []\<rparr>)
        \<lparr>buyers = [], history = [], uuids_drawn = 0\<rparr>)
     = \<lparr>buyers = [], history = [], uuids_drawn = 0\<rparr>"
proof -
  have h: "length (replicate 201 ((\<lambda>k. JUndefined) :: jsobj)) > 200" by simp
  note r = oversized_batch_rejected [OF h,
    of "\<lparr>csvData = [], importErrors = [], importSuccess = 0, toasts = []\<rparr>"
       "\<lparr>email_ok = (\<lambda>s. True), lt_other = (\<lambda>a b. False)\<rparr>" "Some ''u1''" 5 "\<lambda>n. ''id''"
       "\<lparr>buyers = [], history = [], uuids_drawn = 0\<rparr>"]
  show ?thesis
    unfolding r [THEN conjunct2] unfolding r [THEN conjunct1] by simp
qed

subsection \<open>C9: the tags cell\<close>












subsection \<open>C10: what the write paths store for a zero budget and an empty text\<close>



end
